theory Spec2Isabelle
  imports Main "HOL-Library.Sublist"
begin

section \<open>The pip installer of rosdep (rosdep2/platforms/pip.py)\<close>

text \<open>
  The module is glue over the process environment, the file system and external
  commands. The embedding makes these explicit: a \<open>world\<close> record holds everything
  the module reads, every function returns the list of external actions it performed
  (its trace) together with either the exception it raised or its value.
\<close>

subsection \<open>Python strings\<close>

text \<open>
  Strings are the UTF-8 bytes of Python's text. \<open>str.lower\<close> is modelled on the ASCII
  letters; no character outside ASCII lowers to a letter of the words compared against
  below.
\<close>

definition ascii_lower :: "char \<Rightarrow> char" where
  "ascii_lower c =
     (case map_of (zip ''ABCDEFGHIJKLMNOPQRSTUVWXYZ'' ''abcdefghijklmnopqrstuvwxyz'') c of
        None \<Rightarrow> c
      | Some d \<Rightarrow> d)"

definition str_lower :: "string \<Rightarrow> string" where
  "str_lower s = map ascii_lower s"

text \<open>
  \<open>s.split(sep)\<close> for a non-empty separator: the occurrences of \<open>sep\<close> are found from
  the left and do not overlap; the result is never empty. Every call site of the module
  passes a non-empty literal.
\<close>

function split_from :: "string \<Rightarrow> string \<Rightarrow> string \<Rightarrow> string list" where
  "split_from sep acc [] = [rev acc]"
| "split_from sep acc (c # cs) =
     (if sep \<noteq> [] \<and> prefix sep (c # cs)
      then rev acc # split_from sep [] (drop (length sep) (c # cs))
      else split_from sep (c # acc) cs)"
  by pat_completeness auto
termination
  by (relation "measure (\<lambda>(sep, acc, s). length s)") auto

definition split_py :: "string \<Rightarrow> string \<Rightarrow> string list" where
  "split_py s sep = split_from sep [] s"

text \<open>
  \<open>str.strip()\<close> and \<open>bytes.strip()\<close>: whitespace removed at both ends. For \<open>bytes\<close> the
  whitespace is the six ASCII characters; for \<open>str\<close> it is every character that Python
  counts as a space, given here by its UTF-8 bytes.
\<close>

definition bytes_spaces :: "string list" where
  "bytes_spaces = map (\<lambda>c. [c]) [CHR '' '', CHR 0x09, CHR 0x0A, CHR 0x0B, CHR 0x0C, CHR 0x0D]"

definition str_spaces :: "string list" where
  "str_spaces =
     bytes_spaces
     @ map (\<lambda>c. [c]) [CHR 0x1C, CHR 0x1D, CHR 0x1E, CHR 0x1F]
     @ [[CHR 0xC2, CHR 0x85], [CHR 0xC2, CHR 0xA0], [CHR 0xE1, CHR 0x9A, CHR 0x80]]
     @ map (\<lambda>c. [CHR 0xE2, CHR 0x80, c])
         [CHR 0x80, CHR 0x81, CHR 0x82, CHR 0x83, CHR 0x84, CHR 0x85, CHR 0x86, CHR 0x87,
          CHR 0x88, CHR 0x89, CHR 0x8A, CHR 0xA8, CHR 0xA9, CHR 0xAF]
     @ [[CHR 0xE2, CHR 0x81, CHR 0x9F], [CHR 0xE3, CHR 0x80, CHR 0x80]]"

function lstrip_spaces :: "string list \<Rightarrow> string \<Rightarrow> string" where
  "lstrip_spaces spaces s =
     (case List.find (\<lambda>t. t \<noteq> [] \<and> prefix t s) spaces of
        None \<Rightarrow> s
      | Some t \<Rightarrow> lstrip_spaces spaces (drop (length t) s))"
  by pat_completeness auto
termination
proof (relation "measure (\<lambda>(spaces, s). length s)")
  show "wf (measure (\<lambda>(spaces, s). length s))" by simp
next
  fix spaces :: "string list" and s t :: string
  assume "List.find (\<lambda>t. t \<noteq> [] \<and> prefix t s) spaces = Some t"
  then have "t \<noteq> [] \<and> prefix t s"
    by (auto simp: find_Some_iff)
  then show "((spaces, drop (length t) s), (spaces, s)) \<in> measure (\<lambda>(spaces, s). length s)"
    by (auto simp: prefix_def)
qed

definition strip_spaces :: "string list \<Rightarrow> string \<Rightarrow> string" where
  "strip_spaces spaces s =
     rev (lstrip_spaces (map rev spaces) (rev (lstrip_spaces spaces s)))"

definition str_strip :: "string \<Rightarrow> string" where
  "str_strip s = strip_spaces str_spaces s"

definition bytes_strip :: "string \<Rightarrow> string" where
  "bytes_strip s = strip_spaces bytes_spaces s"

subsection \<open>Exceptions, traces and the world\<close>

datatype py_error =
    KeyError string
  | IndexError
  | OSError
  | ConfigReadError
  | InterpolationError
  | ValueError string
  | InstallFailed string string
  | OtherError string

text \<open>
  \<open>pathlib.Path\<close> on POSIX: a root (\<open>''''\<close>, \<open>''/''\<close> or \<open>''//''\<close>) and the parts, with empty
  and \<open>.\<close> components dropped.
\<close>

datatype path = Path string "string list"

definition posix_root :: "string \<Rightarrow> string" where
  "posix_root s =
     (if take 2 s = ''//'' \<and> take 3 s \<noteq> ''///'' then ''//''
      else if take 1 s = ''/'' then ''/''
      else '''')"

definition posix_parts :: "string \<Rightarrow> string list" where
  "posix_parts s = filter (\<lambda>x. x \<noteq> '''' \<and> x \<noteq> ''.'') (split_py s ''/'')"

definition Path_of :: "string \<Rightarrow> path" where
  "Path_of s = Path (posix_root s) (posix_parts s)"

fun truediv :: "path \<Rightarrow> string \<Rightarrow> path" where
  "truediv (Path r ps) s =
     (if posix_root s \<noteq> '''' then Path_of s else Path r (ps @ posix_parts s))"

datatype event =
    Popen "string list"
  | ReadStdout "string list"
  | ExecFn "string list"
  | ImportPip
  | ConfigRead path

type_synonym 'a io = "event list \<times> (py_error + 'a)"

definition io_return :: "'a \<Rightarrow> 'a io" where
  "io_return x = ([], Inr x)"

definition io_raise :: "py_error \<Rightarrow> 'a io" where
  "io_raise e = ([], Inl e)"

definition io_bind :: "'a io \<Rightarrow> ('a \<Rightarrow> 'b io) \<Rightarrow> 'b io" where
  "io_bind m f =
     (case m of
        (l, Inl e) \<Rightarrow> (l, Inl e)
      | (l, Inr x) \<Rightarrow> (case f x of (l', r) \<Rightarrow> (l @ l', r)))"

definition io_lift :: "py_error + 'a \<Rightarrow> 'a io" where
  "io_lift r = ([], r)"

text \<open>What \<open>subprocess.Popen(cmd, ...)\<close> followed by \<open>communicate()\<close> gives.\<close>

datatype proc_outcome = SpawnFailed | Exited int string

text \<open>
  The state of a \<open>ConfigParser\<close>, and the parsed content of a well-formed INI file: the
  options of the \<open>DEFAULT\<close> section and those of every other section. A file on disk is
  unreadable (\<open>open\<close> raises \<open>OSError\<close>: missing, a directory, no permission), not
  well-formed (it opens and \<open>read\<close> raises: one of the parser's errors on text that is
  not INI, or \<open>UnicodeDecodeError\<close> on bytes that are not text; both are
  \<open>ConfigReadError\<close> here), or well-formed.
\<close>

record config =
  defaults :: "string \<rightharpoonup> string"
  sections :: "string \<rightharpoonup> (string \<rightharpoonup> string)"

datatype file_state = Unreadable | Malformed | Wellformed config

record world =
  environ :: "string \<rightharpoonup> string"
  version_info :: "nat \<times> nat"
  sys_version0 :: char
  sys_executable :: string
  pip_importable :: bool
  popen :: "string list \<Rightarrow> proc_outcome"
  read_stdout :: "string list \<Rightarrow> py_error + string"
  files :: "path \<Rightarrow> file_state"
  interpolate :: "(string \<rightharpoonup> string) \<Rightarrow> string \<Rightarrow> py_error + string"

text \<open>
  \<open>sys_version0\<close> is \<open>sys.version[0]\<close>, the first character of the interpreter's version
  text, and \<open>version_info\<close> the major and minor numbers of \<open>sys.version_info\<close>.
  \<open>read_stdout\<close> of \<open>rosdep2.shell_utils\<close> is not part of the sources at hand; the world
  carries what it returns for a command. \<open>interpolate\<close> is what the parser's
  \<open>BasicInterpolation\<close> makes of a stored value with a percent sign, given the options
  the value may refer to: the value with the references filled in, or an error.
\<close>

definition environ_item :: "world \<Rightarrow> string \<Rightarrow> string io" where
  "environ_item w k =
     (case environ w k of None \<Rightarrow> io_raise (KeyError k) | Some v \<Rightarrow> io_return v)"

definition index0 :: "'a list \<Rightarrow> 'a io" where
  "index0 xs = (case xs of [] \<Rightarrow> io_raise IndexError | x # _ \<Rightarrow> io_return x)"

subsection \<open>Constants of the module\<close>

definition PIP_INSTALLER :: string where
  "PIP_INSTALLER = ''pip''"

definition nl :: string where
  "nl = [CHR 0x0A]"

definition quote :: string where
  "quote = [CHR 0x27]"

definition EXTERNALLY_MANAGED_EXPLAINER :: string where
  "EXTERNALLY_MANAGED_EXPLAINER =
     nl @ ''rosdep installation of pip packages requires installing packages globally as root.''
     @ nl @ ''When using Python >= 3.11, PEP 668 compliance requires you to allow pip to install alongside''
     @ nl @ ''externally managed packages using the '' @ quote @ ''break-system-packages'' @ quote @ '' option.''
     @ nl @ ''The recommeded way to set this option when using rosdep is to set the environment variable''
     @ nl @ ''PIP_BREAK_SYSTEM_PACKAGES=1''
     @ nl @ ''in your environment.''
     @ nl
     @ nl @ ''For more information refer to http://docs.ros.org/en/independent/api/rosdep/html/pip_and_pep_668.html''
     @ nl"

subsection \<open>The command locator\<close>

definition is_cmd_available :: "world \<Rightarrow> string list \<Rightarrow> bool io" where
  "is_cmd_available w cmd =
     ([Popen cmd],
      Inr (case popen w cmd of SpawnFailed \<Rightarrow> False | Exited rc out \<Rightarrow> rc = 0))"

definition try_import_pip :: "world \<Rightarrow> bool io" where
  "try_import_pip w = ([ImportPip], Inr (pip_importable w))"

definition get_pip_command :: "world \<Rightarrow> (string list option) io" where
  "get_pip_command w =
     io_bind (environ_item w ''ROS_PYTHON_VERSION'') (\<lambda>v.
     io_bind (is_cmd_available w [''pip'' @ v]) (\<lambda>ok.
       if ok then io_return (Some [''pip'' @ v])
       else
         io_bind (environ_item w ''ROS_PYTHON_VERSION'') (\<lambda>v2.
         io_bind (if v2 = [sys_version0 w] then try_import_pip w else io_return False) (\<lambda>imported.
           if imported then io_return (Some [sys_executable w, ''-m'', ''pip''])
           else
             io_bind (environ_item w ''ROS_PYTHON_VERSION'') (\<lambda>v3.
             io_bind (is_cmd_available w [''python'' @ v3, ''-m'', ''pip'']) (\<lambda>ok2.
               io_return (if ok2 then Some [''python'' @ v3, ''-m'', ''pip''] else None)))))))"

text \<open>Python's \<open>not pip_cmd\<close>: \<open>None\<close> and the empty list are both falsy.\<close>

definition falsy_cmd :: "string list option \<Rightarrow> bool" where
  "falsy_cmd c = (case c of None \<Rightarrow> True | Some xs \<Rightarrow> xs = [])"

subsection \<open>ConfigParser\<close>

text \<open>
  \<open>ConfigParser.read(path)\<close> skips a file it cannot open, raises on a file that is not
  well-formed INI, and otherwise merges the file into the parser: an option read
  replaces the option of the same section read before.
\<close>

definition empty_config :: config where
  "empty_config = \<lparr>defaults = Map.empty, sections = Map.empty\<rparr>"

definition merge_section ::
  "(string \<rightharpoonup> string) option \<Rightarrow> (string \<rightharpoonup> string) option \<Rightarrow> (string \<rightharpoonup> string) option" where
  "merge_section old new =
     (case new of
        None \<Rightarrow> old
      | Some n \<Rightarrow> (case old of None \<Rightarrow> Some n | Some m \<Rightarrow> Some (m ++ n)))"

definition merge_config :: "config \<Rightarrow> config \<Rightarrow> config" where
  "merge_config cfg c =
     \<lparr>defaults = defaults cfg ++ defaults c,
      sections = (\<lambda>s. merge_section (sections cfg s) (sections c s))\<rparr>"

definition config_read :: "world \<Rightarrow> config \<Rightarrow> path \<Rightarrow> config io" where
  "config_read w cfg p =
     ([ConfigRead p],
      (case files w p of
         Unreadable \<Rightarrow> Inr cfg
       | Malformed \<Rightarrow> Inl ConfigReadError
       | Wellformed c \<Rightarrow> Inr (merge_config cfg c)))"

text \<open>
  \<open>getboolean(section, option, fallback=...)\<close>: the fallback stands in for a missing
  section or option only; a value that is none of the boolean words raises \<open>ValueError\<close>.
  The options of a section are looked up in the section, then in \<open>DEFAULT\<close>. The value
  found goes through interpolation before it is read as a boolean: a value without a
  percent sign comes out as it is, any other is what \<open>interpolate\<close> gives.
\<close>

definition BOOLEAN_STATES :: "(string \<times> bool) list" where
  "BOOLEAN_STATES =
     [(''1'', True), (''yes'', True), (''true'', True), (''on'', True),
      (''0'', False), (''no'', False), (''false'', False), (''off'', False)]"

definition convert_to_boolean :: "string \<Rightarrow> py_error + bool" where
  "convert_to_boolean v =
     (case map_of BOOLEAN_STATES (str_lower v) of
        None \<Rightarrow> Inl (ValueError (''Not a boolean: '' @ v))
      | Some b \<Rightarrow> Inr b)"

definition unify_values :: "config \<Rightarrow> string \<Rightarrow> (string \<rightharpoonup> string) option" where
  "unify_values cfg section =
     (case sections cfg section of
        Some sd \<Rightarrow> Some (defaults cfg ++ sd)
      | None \<Rightarrow> (if section \<noteq> ''DEFAULT'' then None else Some (defaults cfg)))"

definition before_get :: "world \<Rightarrow> (string \<rightharpoonup> string) \<Rightarrow> string \<Rightarrow> py_error + string" where
  "before_get w d v = (if CHR ''%'' \<in> set v then interpolate w d v else Inr v)"

definition getboolean ::
  "world \<Rightarrow> config \<Rightarrow> string \<Rightarrow> string \<Rightarrow> bool \<Rightarrow> py_error + bool" where
  "getboolean w cfg section option fallback =
     (case unify_values cfg section of
        None \<Rightarrow> Inr fallback
      | Some d \<Rightarrow>
          (case d option of
             None \<Rightarrow> Inr fallback
           | Some v \<Rightarrow>
               (case before_get w d v of
                  Inl e \<Rightarrow> Inl e
                | Inr v' \<Rightarrow> convert_to_boolean v')))"

subsection \<open>The policy check\<close>

text \<open>\<open>sys.version_info < (3, 11)\<close>, on the major and minor numbers.\<close>

definition version_lt_3_11 :: "nat \<times> nat \<Rightarrow> bool" where
  "version_lt_3_11 v = (fst v < 3 \<or> (fst v = 3 \<and> snd v < 11))"

definition pip_config_file :: "string \<Rightarrow> path" where
  "pip_config_file xdg_dir = truediv (truediv (Path_of xdg_dir) ''pip'') ''pip.conf''"

definition fallback_config :: path where
  "fallback_config = Path_of ''/etc/pip.conf''"

definition break_system_packages :: "world \<Rightarrow> config \<Rightarrow> py_error + bool" where
  "break_system_packages w cfg = getboolean w cfg ''install'' ''break-system-packages'' False"

text \<open>
  The loop over the directories of \<open>XDG_CONFIG_DIRS\<close>, on the one parser \<open>pip_config\<close>:
  \<open>None\<close> when the loop returned \<open>True\<close>, the parser after the last read otherwise.
\<close>

fun xdg_loop :: "world \<Rightarrow> config \<Rightarrow> string list \<Rightarrow> (config option) io" where
  "xdg_loop w cfg [] = io_return (Some cfg)"
| "xdg_loop w cfg (xdg_dir # rest) =
     io_bind (config_read w cfg (pip_config_file xdg_dir)) (\<lambda>cfg'.
     io_bind (io_lift (break_system_packages w cfg')) (\<lambda>b.
       if b then io_return None else xdg_loop w cfg' rest))"

definition override_truthy :: "world \<Rightarrow> bool" where
  "override_truthy w =
     (case environ w ''PIP_BREAK_SYSTEM_PACKAGES'' of
        None \<Rightarrow> False
      | Some v \<Rightarrow> str_lower v \<in> set [''yes'', ''1'', ''true''])"

definition externally_managed_installable :: "world \<Rightarrow> bool io" where
  "externally_managed_installable w =
     (if version_lt_3_11 (version_info w) then io_return True
      else if override_truthy w then io_return True
      else
        io_bind
          (case environ w ''XDG_CONFIG_DIRS'' of
             None \<Rightarrow> io_return (Some empty_config)
           | Some v \<Rightarrow> xdg_loop w empty_config (split_py v '':''))
          (\<lambda>r. case r of
                 None \<Rightarrow> io_return True
               | Some cfg \<Rightarrow>
                   io_bind (config_read w cfg fallback_config) (\<lambda>cfg'.
                   io_bind (io_lift (break_system_packages w cfg')) (\<lambda>b.
                     io_return b))))"

subsection \<open>The detector\<close>

text \<open>The loop over the lines of the freeze output.\<close>

fun freeze_loop :: "string list \<Rightarrow> string list \<Rightarrow> string list \<Rightarrow> (string list) io" where
  "freeze_loop pkgs [] ret_list = io_return ret_list"
| "freeze_loop pkgs (pkg # rest) ret_list =
     io_bind (index0 (split_py pkg ''=='')) (\<lambda>name.
       freeze_loop pkgs rest (if name \<in> set pkgs then ret_list @ [name] else ret_list))"

text \<open>
  The loop over the candidates that the freeze pass did not find: \<open>pip show\<close> on the
  text before the first \<open>@\<close>, stripped; the candidate itself is recorded.
\<close>

fun show_loop :: "world \<Rightarrow> string list \<Rightarrow> string list \<Rightarrow> string list \<Rightarrow> (string list) io" where
  "show_loop w pip_cmd [] ret_list = io_return ret_list"
| "show_loop w pip_cmd (pkg # rest) ret_list =
     io_bind (index0 (split_py pkg ''@'')) (\<lambda>name.
       (case popen w (pip_cmd @ [''show'', str_strip name]) of
          SpawnFailed \<Rightarrow> ([Popen (pip_cmd @ [''show'', str_strip name])], Inl OSError)
        | Exited rc output \<Rightarrow>
            io_bind ([Popen (pip_cmd @ [''show'', str_strip name])], Inr ()) (\<lambda>_.
              show_loop w pip_cmd rest
                (if rc = 0 \<and> bytes_strip output \<noteq> [] then ret_list @ [pkg]
                 else ret_list))))"

text \<open>
  \<open>exec_fn\<close> is \<open>None\<close> in production, where \<open>read_stdout\<close> runs the command, or a function
  from the command to the text it prints.
\<close>

definition run_exec_fn ::
  "world \<Rightarrow> (string list \<Rightarrow> string) option \<Rightarrow> string list \<Rightarrow> string io" where
  "run_exec_fn w exec_fn cmd =
     (case exec_fn of
        None \<Rightarrow> ([ReadStdout cmd], read_stdout w cmd)
      | Some f \<Rightarrow> ([ExecFn cmd], Inr (f cmd)))"

definition pip_detect ::
  "world \<Rightarrow> string list \<Rightarrow> (string list \<Rightarrow> string) option \<Rightarrow> (string list) io" where
  "pip_detect w pkgs exec_fn =
     io_bind (get_pip_command w) (\<lambda>pip_cmd.
       if falsy_cmd pip_cmd then io_return []
       else
         io_bind (run_exec_fn w exec_fn (the pip_cmd @ [''freeze''])) (\<lambda>out.
         io_bind (freeze_loop pkgs (split_py out nl) []) (\<lambda>ret_list.
           (case exec_fn of
              Some f \<Rightarrow> io_return ret_list
            | None \<Rightarrow>
                show_loop w (the pip_cmd) (filter (\<lambda>p. p \<notin> set ret_list) pkgs) ret_list))))"

subsection \<open>The install command\<close>

text \<open>
  \<open>get_packages_to_install\<close> and \<open>elevate_priv\<close> belong to the base class, which is not
  part of the sources at hand: both are arguments.
\<close>

definition get_install_command ::
  "world \<Rightarrow> ('r \<Rightarrow> bool \<Rightarrow> (string list) io) \<Rightarrow> (string list \<Rightarrow> 'c) \<Rightarrow>
   'r \<Rightarrow> bool \<Rightarrow> bool \<Rightarrow> bool \<Rightarrow> ('c list) io" where
  "get_install_command w get_packages_to_install elevate_priv resolved interactive reinstall quiet =
     io_bind (get_pip_command w) (\<lambda>pip_cmd.
       if falsy_cmd pip_cmd then io_raise (InstallFailed PIP_INSTALLER ''pip is not installed'')
       else
         io_bind (externally_managed_installable w) (\<lambda>installable.
           if \<not> installable then io_raise (InstallFailed PIP_INSTALLER EXTERNALLY_MANAGED_EXPLAINER)
           else
             io_bind (get_packages_to_install resolved reinstall) (\<lambda>packages.
               if packages = [] then io_return []
               else
                 io_return
                   (map (\<lambda>p. elevate_priv
                          ((the pip_cmd @ [''install'', ''-U''])
                           @ (if quiet then [''-q''] else [])
                           @ (if reinstall then [''-I''] else [])
                           @ [p]))
                        packages))))"

subsection \<open>The installer object\<close>

text \<open>
  The fields of \<open>PackageManagerInstaller\<close> that \<open>PipInstaller.__init__\<close> reads and writes.
  The base class is not part of the sources at hand: the object as the base constructor
  leaves it is the argument.
\<close>

record installer =
  as_root :: bool
  sudo_command :: string
  supports_depends :: bool

definition PipInstaller_init :: "installer \<Rightarrow> installer" where
  "PipInstaller_init base =
     (if as_root base \<and> sudo_command base \<noteq> ''''
      then base\<lparr>sudo_command := sudo_command base @ '' --preserve-env=PIP_BREAK_SYSTEM_PACKAGES''\<rparr>
      else base)"

subsection \<open>Notions used to state the properties\<close>

text \<open>The text of a freeze line before its first \<open>==\<close>, which is \<open>pkg_row[0]\<close>.\<close>

definition base_name :: "string \<Rightarrow> string" where
  "base_name s = hd (split_py s ''=='')"

text \<open>
  The files the policy check may read, in the order it reads them: the file of each
  directory of \<open>XDG_CONFIG_DIRS\<close>, then \<open>/etc/pip.conf\<close>.
\<close>

definition config_paths :: "world \<Rightarrow> path list" where
  "config_paths w =
     (case environ w ''XDG_CONFIG_DIRS'' of
        None \<Rightarrow> []
      | Some v \<Rightarrow> map pip_config_file (split_py v '':''))
     @ [fallback_config]"

text \<open>
  The parser after a successful read of one file, and after the reads of a list of files
  starting from the fresh parser.
\<close>

definition read_file :: "world \<Rightarrow> config \<Rightarrow> path \<Rightarrow> config" where
  "read_file w cfg p = (case files w p of Wellformed c \<Rightarrow> merge_config cfg c | _ \<Rightarrow> cfg)"

definition after_reads :: "world \<Rightarrow> path list \<Rightarrow> config" where
  "after_reads w ps = foldl (read_file w) empty_config ps"

definition key_true :: "world \<Rightarrow> config \<Rightarrow> bool" where
  "key_true w cfg = (break_system_packages w cfg = Inr True)"

text \<open>
  A condition on the values that a file gives to \<open>break-system-packages\<close>, in \<open>[install]\<close>
  and in \<open>[DEFAULT]\<close>; a file that is not well-formed INI fails every such condition, a
  file that cannot be opened meets it.
\<close>

definition opt_sat :: "(string \<Rightarrow> bool) \<Rightarrow> string option \<Rightarrow> bool" where
  "opt_sat P x = (case x of None \<Rightarrow> True | Some v \<Rightarrow> P v)"

definition config_sat :: "(string \<Rightarrow> bool) \<Rightarrow> config \<Rightarrow> bool" where
  "config_sat P c =
     (opt_sat P (defaults c ''break-system-packages'')
      \<and> (case sections c ''install'' of
           None \<Rightarrow> True
         | Some sd \<Rightarrow> opt_sat P (sd ''break-system-packages'')))"

definition file_sat :: "(string \<Rightarrow> bool) \<Rightarrow> file_state \<Rightarrow> bool" where
  "file_sat P st =
     (case st of Unreadable \<Rightarrow> True | Malformed \<Rightarrow> False | Wellformed c \<Rightarrow> config_sat P c)"

definition is_boolean_word :: "string \<Rightarrow> bool" where
  "is_boolean_word v = (map_of BOOLEAN_STATES (str_lower v) \<noteq> None)"

text \<open>The condition that no value meets: a file meets it when it does not define the key.\<close>

definition never :: "string \<Rightarrow> bool" where
  "never v = False"

text \<open>
  The policy check over the configuration files as the specification words it: the first
  file that defines the key decides.
\<close>

definition file_key :: "file_state \<Rightarrow> string option" where
  "file_key st =
     (case st of
        Wellformed c \<Rightarrow>
          (case unify_values c ''install'' of
             None \<Rightarrow> None
           | Some d \<Rightarrow> d ''break-system-packages'')
      | _ \<Rightarrow> None)"

definition spec_first_file_wins :: "world \<Rightarrow> bool" where
  "spec_first_file_wins w =
     (case List.find (\<lambda>p. file_key (files w p) \<noteq> None) (config_paths w) of
        None \<Rightarrow> False
      | Some p \<Rightarrow>
          (case file_key (files w p) of
             None \<Rightarrow> False
           | Some v \<Rightarrow> convert_to_boolean v = Inr True))"


text \<open>
  The detector as the specification words it: a candidate is found when its text before
  \<open>==\<close> is that of a freeze line, and the candidate as requested is returned.
\<close>

definition spec_pip_detect :: "string list \<Rightarrow> string \<Rightarrow> string list" where
  "spec_pip_detect pkgs out =
     filter (\<lambda>p. base_name p \<in> base_name ` set (split_py out nl)) pkgs"

definition freeze_foo :: "string list \<Rightarrow> string" where
  "freeze_foo cmd = ''foo==1.0''"

subsection \<open>Example worlds\<close>

text \<open>
  A machine with Python 3.12 where \<open>pip3\<close> runs, no configuration file exists and the
  environment holds \<open>ROS_PYTHON_VERSION=3\<close> only; and variations of it.
\<close>

definition w_pip3 :: world where
  "w_pip3 =
     \<lparr>environ = [''ROS_PYTHON_VERSION'' \<mapsto> ''3''],
      version_info = (3, 12),
      sys_version0 = CHR ''3'',
      sys_executable = ''/usr/bin/python3'',
      pip_importable = False,
      popen = (\<lambda>cmd. if cmd = [''pip3''] then Exited 0 [] else SpawnFailed),
      read_stdout = (\<lambda>cmd. Inr []),
      files = (\<lambda>p. Unreadable),
      interpolate = (\<lambda>d v. Inl InterpolationError)\<rparr>"

definition w_nopip :: world where
  "w_nopip = w_pip3\<lparr>popen := (\<lambda>cmd. SpawnFailed)\<rparr>"

definition w_noenv :: world where
  "w_noenv = w_pip3\<lparr>environ := Map.empty\<rparr>"

definition w_override :: world where
  "w_override =
     w_pip3\<lparr>environ := [''ROS_PYTHON_VERSION'' \<mapsto> ''3'', ''PIP_BREAK_SYSTEM_PACKAGES'' \<mapsto> ''YES'']\<rparr>"

definition install_section :: "string \<Rightarrow> config" where
  "install_section v =
     \<lparr>defaults = Map.empty,
      sections = [''install'' \<mapsto> [''break-system-packages'' \<mapsto> v]]\<rparr>"

definition w_xdg :: world where
  "w_xdg =
     w_pip3\<lparr>environ := [''ROS_PYTHON_VERSION'' \<mapsto> ''3'', ''XDG_CONFIG_DIRS'' \<mapsto> ''/a:/b''],
            files := (\<lambda>p. if p = Path ''/'' [''a'', ''pip'', ''pip.conf'']
                            then Wellformed (install_section ''false'')
                          else if p = Path ''/'' [''b'', ''pip'', ''pip.conf'']
                            then Wellformed (install_section ''true'')
                          else Unreadable)\<rparr>"



definition w_xdg_stop :: world where
  "w_xdg_stop =
     w_pip3\<lparr>environ := [''ROS_PYTHON_VERSION'' \<mapsto> ''3'', ''XDG_CONFIG_DIRS'' \<mapsto> ''/a:/b''],
            files := (\<lambda>p. if p = Path ''/'' [''a'', ''pip'', ''pip.conf'']
                            then Wellformed (install_section ''yes'')
                          else if p = Path ''/'' [''b'', ''pip'', ''pip.conf'']
                            then Malformed
                          else Unreadable)\<rparr>"



definition mock_freeze :: "string list \<Rightarrow> string" where
  "mock_freeze cmd = ''foo==1.0'' @ nl @ ''qux==2.0''"

definition no_packages :: "string list \<Rightarrow> bool \<Rightarrow> (string list) io" where
  "no_packages resolved reinstall = io_return []"

definition all_packages :: "string list \<Rightarrow> bool \<Rightarrow> (string list) io" where
  "all_packages resolved reinstall = io_return resolved"

definition sudo_H :: "string list \<Rightarrow> string list" where
  "sudo_H cmd = [''sudo'', ''-H'', ''--preserve-env=PIP_BREAK_SYSTEM_PACKAGES''] @ cmd"

section \<open>Properties\<close>

subsection \<open>Sequencing\<close>

lemma io_bind_Inr [simp]: "io_bind (l, Inr x) f = (l @ fst (f x), snd (f x))"
  by (simp add: io_bind_def split: prod.splits)

lemma io_bind_Inl [simp]: "io_bind (l, Inl e) f = (l, Inl e)"
  by (simp add: io_bind_def)

lemma io_bind_return [simp]: "io_bind (io_return x) f = f x"
  by (simp add: io_return_def)

lemma io_bind_raise [simp]: "io_bind (io_raise e) f = io_raise e"
  by (simp add: io_raise_def)

subsection \<open>The command locator\<close>

lemma get_pip_command_no_env:
  "environ w ''ROS_PYTHON_VERSION'' = None \<Longrightarrow>
     get_pip_command w = ([], Inl (KeyError ''ROS_PYTHON_VERSION''))"
  by (simp add: get_pip_command_def environ_item_def io_raise_def)

text \<open>The locator only probes commands and tries the import.\<close>

lemma get_pip_command_trace:
  "set (fst (get_pip_command w)) \<subseteq>
     {Popen [''pip'' @ v] | v. environ w ''ROS_PYTHON_VERSION'' = Some v}
     \<union> {ImportPip}
     \<union> {Popen [''python'' @ v, ''-m'', ''pip''] | v. environ w ''ROS_PYTHON_VERSION'' = Some v}"
  by (auto simp: get_pip_command_def environ_item_def is_cmd_available_def try_import_pip_def
        io_return_def io_raise_def split: option.splits if_splits)

lemma get_pip_command_returns:
  "environ w ''ROS_PYTHON_VERSION'' = Some v \<Longrightarrow> \<exists>l c. get_pip_command w = (l, Inr c)"
  by (auto simp: get_pip_command_def environ_item_def is_cmd_available_def try_import_pip_def
        io_return_def io_raise_def split: option.splits if_splits)

lemma get_pip_command_nonempty:
  "get_pip_command w = (l, Inr (Some c)) \<Longrightarrow> c \<noteq> []"
  by (auto simp: get_pip_command_def environ_item_def is_cmd_available_def try_import_pip_def
        io_return_def io_raise_def split: option.splits if_splits)

lemma get_pip_command_w_nopip:
  "get_pip_command w_nopip =
     ([Popen [''pip3''], ImportPip, Popen [''python3'', ''-m'', ''pip'']], Inr None)"
  by (simp add: get_pip_command_def w_nopip_def w_pip3_def environ_item_def
        is_cmd_available_def try_import_pip_def io_return_def)

lemma get_pip_command_w_pip3:
  "get_pip_command w_pip3 = ([Popen [''pip3'']], Inr (Some [''pip3'']))"
  by (simp add: get_pip_command_def w_pip3_def environ_item_def
        is_cmd_available_def io_return_def)

lemma get_pip_command_w_override:
  "get_pip_command w_override = ([Popen [''pip3'']], Inr (Some [''pip3'']))"
  by (simp add: get_pip_command_def w_override_def w_pip3_def environ_item_def
        is_cmd_available_def io_return_def)

lemma installable_w_pip3:
  "externally_managed_installable w_pip3 =
     ([ConfigRead (Path ''/'' [''etc'', ''pip.conf''])], Inr False)"
  by (simp add: externally_managed_installable_def w_pip3_def version_lt_3_11_def
        override_truthy_def io_return_def config_read_def fallback_config_def Path_of_def
        posix_root_def posix_parts_def split_py_def io_lift_def break_system_packages_def
        getboolean_def unify_values_def empty_config_def)

lemma installable_w_override:
  "externally_managed_installable w_override = ([], Inr True)"
  by (simp add: externally_managed_installable_def w_override_def w_pip3_def version_lt_3_11_def
        override_truthy_def io_return_def str_lower_def ascii_lower_def)

text \<open>
  C9. When \<open>ROS_PYTHON_VERSION\<close> is not set, \<open>get_pip_command\<close> raises a key-lookup error
  instead of signalling that pip is unavailable, and so do \<open>pip_detect\<close> and
  \<open>get_install_command\<close>, before anything else has run.
\<close>

theorem locator_needs_ROS_PYTHON_VERSION:
  assumes "environ w ''ROS_PYTHON_VERSION'' = None"
  shows "get_pip_command w = ([], Inl (KeyError ''ROS_PYTHON_VERSION''))
     \<and> pip_detect w pkgs exec_fn = ([], Inl (KeyError ''ROS_PYTHON_VERSION''))
     \<and> get_install_command w get_packages_to_install elevate_priv resolved interactive reinstall quiet
         = ([], Inl (KeyError ''ROS_PYTHON_VERSION''))"
  using assms
  by (simp add: get_pip_command_no_env pip_detect_def get_install_command_def)

theorem locator_needs_ROS_PYTHON_VERSION_witness:
  "get_pip_command w_noenv = ([], Inl (KeyError ''ROS_PYTHON_VERSION''))
     \<and> pip_detect w_noenv [''foo''] (Some mock_freeze) = ([], Inl (KeyError ''ROS_PYTHON_VERSION''))
     \<and> get_install_command w_noenv all_packages sudo_H [''foo''] True False False
         = ([], Inl (KeyError ''ROS_PYTHON_VERSION''))"
  using locator_needs_ROS_PYTHON_VERSION
          [where w = w_noenv and pkgs = "[''foo'']" and exec_fn = "Some mock_freeze"
             and get_packages_to_install = all_packages and elevate_priv = sudo_H
             and resolved = "[''foo'']" and interactive = True and reinstall = False
             and quiet = False]
  by (simp add: w_noenv_def w_pip3_def)

text \<open>
  C8. When the locator yields no usable pip command, \<open>pip_detect\<close> returns the empty list
  for every candidate list and does not raise; its trace is the trace of the locator's
  probes, so neither the injected output function nor \<open>read_stdout\<close> nor any further
  subprocess has run.
\<close>

theorem pip_detect_no_command:
  assumes "get_pip_command w = (l, Inr c)" and "falsy_cmd c"
  shows "pip_detect w pkgs exec_fn = (l, Inr [])
     \<and> (\<forall>cmd. ExecFn cmd \<notin> set l \<and> ReadStdout cmd \<notin> set l)"
proof -
  have "pip_detect w pkgs exec_fn = (l, Inr [])"
    using assms by (simp add: pip_detect_def io_return_def)
  moreover have "\<forall>cmd. ExecFn cmd \<notin> set l \<and> ReadStdout cmd \<notin> set l"
    using get_pip_command_trace [of w] assms(1) by auto
  ultimately show ?thesis by simp
qed

theorem pip_detect_no_command_witness:
  "pip_detect w_nopip [''foo'', ''bar''] (Some mock_freeze) =
     ([Popen [''pip3''], ImportPip, Popen [''python3'', ''-m'', ''pip'']], Inr [])"
  using pip_detect_no_command [OF get_pip_command_w_nopip,
          where pkgs = "[''foo'', ''bar'']" and exec_fn = "Some mock_freeze"]
  by (simp add: falsy_cmd_def)

text \<open>
  C4. When the locator yields no usable pip command, \<open>get_install_command\<close> raises
  \<open>InstallFailed\<close> with the installer key \<open>pip\<close> and the message \<open>pip is not installed\<close>;
  its trace is the locator's, so no configuration file has been read and no detection
  has run. When the locator yields a command and the policy check returns \<open>False\<close>, it
  raises \<open>InstallFailed\<close> with the key \<open>pip\<close> and the fixed explainer message.
\<close>

theorem get_install_command_failures:
  assumes "get_pip_command w = (l, Inr c)"
  shows "(falsy_cmd c \<longrightarrow>
            get_install_command w get_packages_to_install elevate_priv resolved interactive reinstall quiet
              = (l, Inl (InstallFailed ''pip'' ''pip is not installed''))
            \<and> (\<forall>p. ConfigRead p \<notin> set l)
            \<and> (\<forall>cmd. ExecFn cmd \<notin> set l \<and> ReadStdout cmd \<notin> set l))
     \<and> (\<not> falsy_cmd c \<and> externally_managed_installable w = (l', Inr False) \<longrightarrow>
            get_install_command w get_packages_to_install elevate_priv resolved interactive reinstall quiet
              = (l @ l', Inl (InstallFailed ''pip'' EXTERNALLY_MANAGED_EXPLAINER)))"
proof -
  have "\<forall>p. ConfigRead p \<notin> set l"
    using get_pip_command_trace [of w] assms by auto
  moreover have "\<forall>cmd. ExecFn cmd \<notin> set l \<and> ReadStdout cmd \<notin> set l"
    using get_pip_command_trace [of w] assms by auto
  ultimately show ?thesis
    using assms by (simp add: get_install_command_def io_raise_def PIP_INSTALLER_def)
qed

theorem get_install_command_failures_witness:
  "get_install_command w_nopip all_packages sudo_H [''foo''] True False False
     = ([Popen [''pip3''], ImportPip, Popen [''python3'', ''-m'', ''pip'']],
        Inl (InstallFailed ''pip'' ''pip is not installed''))
   \<and> get_install_command w_pip3 all_packages sudo_H [''foo''] True False False
     = ([Popen [''pip3''], ConfigRead (Path ''/'' [''etc'', ''pip.conf''])],
        Inl (InstallFailed ''pip'' EXTERNALLY_MANAGED_EXPLAINER))"
  using get_install_command_failures [OF get_pip_command_w_nopip,
          where get_packages_to_install = all_packages and elevate_priv = sudo_H
            and resolved = "[''foo'']" and interactive = True and reinstall = False
            and quiet = False]
        get_install_command_failures [OF get_pip_command_w_pip3,
          where l' = "[ConfigRead (Path ''/'' [''etc'', ''pip.conf''])]"
            and get_packages_to_install = all_packages and elevate_priv = sudo_H
            and resolved = "[''foo'']" and interactive = True and reinstall = False
            and quiet = False]
  by (simp add: falsy_cmd_def installable_w_pip3)

text \<open>
  C5. When the locator yields a command, the policy check permits and the base class
  gives the packages to install, \<open>get_install_command\<close> returns one command for each
  package, in order: the pip command, \<open>install\<close>, \<open>-U\<close>, then \<open>-q\<close> exactly when quiet,
  then \<open>-I\<close> exactly when reinstall, then the package as the last token, the whole passed
  through \<open>elevate_priv\<close>. With no package to install the result is the empty list.
\<close>

theorem get_install_command_per_package:
  assumes "get_pip_command w = (l, Inr (Some pip_cmd))"
      and "externally_managed_installable w = (l', Inr True)"
      and "get_packages_to_install resolved reinstall = (l'', Inr packages)"
  shows "get_install_command w get_packages_to_install elevate_priv resolved interactive reinstall quiet
           = (l @ l' @ l'',
              Inr (map (\<lambda>p. elevate_priv
                          (pip_cmd @ [''install'', ''-U'']
                           @ (if quiet then [''-q''] else [])
                           @ (if reinstall then [''-I''] else [])
                           @ [p]))
                       packages))"
proof -
  have "\<not> falsy_cmd (Some pip_cmd)"
    using get_pip_command_nonempty [OF assms(1)] by (simp add: falsy_cmd_def)
  then show ?thesis
    using assms by (simp add: get_install_command_def io_return_def)
qed

theorem get_install_command_per_package_witness:
  "get_install_command w_override all_packages sudo_H [''foo'', ''bar''] True False True
     = ([Popen [''pip3'']],
        Inr [[''sudo'', ''-H'', ''--preserve-env=PIP_BREAK_SYSTEM_PACKAGES'',
              ''pip3'', ''install'', ''-U'', ''-q'', ''foo''],
             [''sudo'', ''-H'', ''--preserve-env=PIP_BREAK_SYSTEM_PACKAGES'',
              ''pip3'', ''install'', ''-U'', ''-q'', ''bar'']])
   \<and> get_install_command w_override no_packages sudo_H [''foo'', ''bar''] True False True
     = ([Popen [''pip3'']], Inr [])"
  using get_install_command_per_package [OF get_pip_command_w_override installable_w_override,
          where get_packages_to_install = all_packages and resolved = "[''foo'', ''bar'']"
            and reinstall = False and l'' = "[]" and packages = "[''foo'', ''bar'']"
            and elevate_priv = sudo_H and interactive = True and quiet = True]
        get_install_command_per_package [OF get_pip_command_w_override installable_w_override,
          where get_packages_to_install = no_packages and resolved = "[''foo'', ''bar'']"
            and reinstall = False and l'' = "[]" and packages = "[]"
            and elevate_priv = sudo_H and interactive = True and quiet = True]
  by (simp add: all_packages_def no_packages_def io_return_def sudo_H_def)

subsection \<open>The detector\<close>

lemma split_from_nonempty: "split_from sep acc s \<noteq> []"
  by (induction sep acc s rule: split_from.induct) auto

lemma index0_split_py: "index0 (split_py s sep) = io_return (hd (split_py s sep))"
  using split_from_nonempty [of sep "[]" s]
  by (cases "split_py s sep") (simp_all add: index0_def split_py_def)

lemma freeze_loop_filter:
  "freeze_loop pkgs lines ret_list =
     io_return (ret_list @ filter (\<lambda>n. n \<in> set pkgs) (map base_name lines))"
  by (induction lines arbitrary: ret_list) (simp_all add: index0_split_py base_name_def)

lemma pip_detect_injected:
  assumes "get_pip_command w = (l, Inr (Some c))"
  shows "pip_detect w pkgs (Some f) =
     (l @ [ExecFn (c @ [''freeze''])],
      Inr (filter (\<lambda>n. n \<in> set pkgs) (map base_name (split_py (f (c @ [''freeze''])) nl))))"
proof -
  have "\<not> falsy_cmd (Some c)"
    using get_pip_command_nonempty [OF assms] by (simp add: falsy_cmd_def)
  then show ?thesis
    using assms
    by (simp add: pip_detect_def run_exec_fn_def freeze_loop_filter io_return_def)
qed

text \<open>
  C2, as the claim states it, fails: with the candidate \<open>foo==3.0\<close> and the freeze output
  \<open>foo==1.0\<close> the detector returns the empty list, where comparing the base names of both
  strings would return the candidate.
\<close>

theorem pip_detect_exact_name_counterexample:
  "pip_detect w_pip3 [''foo==3.0''] (Some freeze_foo)
     = ([Popen [''pip3''], ExecFn [''pip3'', ''freeze'']], Inr [])
   \<and> spec_pip_detect [''foo==3.0''] (freeze_foo [''pip3'', ''freeze'']) = [''foo==3.0'']"
  by (simp add: pip_detect_injected [OF get_pip_command_w_pip3] freeze_foo_def spec_pip_detect_def
        base_name_def split_py_def nl_def)

text \<open>
  C2, amended. The freeze pass takes the text before the first \<open>==\<close> of each freeze line
  and keeps it when it is equal, as a whole string, to one of the candidates: no pin is
  removed from a candidate. With an injected output function the list returned is the
  list of these texts, in the order of the freeze lines; each is equal to the candidate
  it matched.
\<close>

theorem pip_detect_exact_name:
  assumes "get_pip_command w = (l, Inr (Some c))"
  shows "freeze_loop pkgs lines [] =
           io_return (filter (\<lambda>n. n \<in> set pkgs) (map base_name lines))
     \<and> pip_detect w pkgs (Some f) =
          (l @ [ExecFn (c @ [''freeze''])],
           Inr (filter (\<lambda>n. n \<in> set pkgs)
                  (map base_name (split_py (f (c @ [''freeze''])) nl))))"
  using pip_detect_injected [OF assms] by (simp add: freeze_loop_filter)

theorem pip_detect_exact_name_witness:
  "pip_detect w_pip3 [''foo==3.0'', ''qux''] (Some mock_freeze)
     = ([Popen [''pip3''], ExecFn [''pip3'', ''freeze'']], Inr [''qux''])"
  using pip_detect_exact_name [OF get_pip_command_w_pip3,
          where pkgs = "[''foo==3.0'', ''qux'']" and f = mock_freeze]
  by (simp add: mock_freeze_def base_name_def split_py_def nl_def)

text \<open>
  C6. With an injected output function, and \<open>ROS_PYTHON_VERSION\<close> set, \<open>pip_detect\<close>
  returns a list whose elements are all candidates; its trace holds no \<open>pip show\<close>
  command and no call of \<open>read_stdout\<close>. For the candidates \<open>foo\<close>, \<open>bar\<close>, \<open>baz\<close> and the
  freeze output \<open>foo==1.0\<close>, \<open>qux==2.0\<close> it returns exactly \<open>foo\<close>.
\<close>

theorem pip_detect_subset:
  "(environ w ''ROS_PYTHON_VERSION'' \<noteq> None \<longrightarrow>
      (\<exists>l r. pip_detect w pkgs (Some f) = (l, Inr r)
         \<and> set r \<subseteq> set pkgs
         \<and> (\<forall>cmd. Popen cmd \<in> set l \<longrightarrow> ''show'' \<notin> set cmd)
         \<and> (\<forall>cmd. ReadStdout cmd \<notin> set l)))
   \<and> pip_detect w_pip3 [''foo'', ''bar'', ''baz''] (Some mock_freeze)
       = ([Popen [''pip3''], ExecFn [''pip3'', ''freeze'']], Inr [''foo''])"
proof (intro conjI impI)
  assume "environ w ''ROS_PYTHON_VERSION'' \<noteq> None"
  then obtain v where v: "environ w ''ROS_PYTHON_VERSION'' = Some v" by auto
  from get_pip_command_returns [OF v] obtain l c where lc: "get_pip_command w = (l, Inr c)"
    by blast
  have tr: "(\<forall>cmd. Popen cmd \<in> set l \<longrightarrow> ''show'' \<notin> set cmd) \<and> (\<forall>cmd. ReadStdout cmd \<notin> set l)"
    using get_pip_command_trace [of w] lc by auto
  show "\<exists>l r. pip_detect w pkgs (Some f) = (l, Inr r)
         \<and> set r \<subseteq> set pkgs
         \<and> (\<forall>cmd. Popen cmd \<in> set l \<longrightarrow> ''show'' \<notin> set cmd)
         \<and> (\<forall>cmd. ReadStdout cmd \<notin> set l)"
  proof (cases c)
    case None
    then have "pip_detect w pkgs (Some f) = (l, Inr [])"
      using lc by (simp add: pip_detect_def falsy_cmd_def io_return_def)
    then show ?thesis using tr by simp
  next
    case (Some pc)
    then show ?thesis
      using pip_detect_injected [of w l pc pkgs f] lc tr by auto
  qed
next
  show "pip_detect w_pip3 [''foo'', ''bar'', ''baz''] (Some mock_freeze)
       = ([Popen [''pip3''], ExecFn [''pip3'', ''freeze'']], Inr [''foo''])"
    by (simp add: pip_detect_injected [OF get_pip_command_w_pip3] mock_freeze_def base_name_def
          split_py_def nl_def)
qed

theorem pip_detect_subset_witness:
  "environ w_pip3 ''ROS_PYTHON_VERSION'' \<noteq> None
   \<and> (\<exists>l r. pip_detect w_pip3 [''foo'', ''nope''] (Some freeze_foo) = (l, Inr r)
         \<and> set r \<subseteq> set [''foo'', ''nope'']
         \<and> (\<forall>cmd. Popen cmd \<in> set l \<longrightarrow> ''show'' \<notin> set cmd)
         \<and> (\<forall>cmd. ReadStdout cmd \<notin> set l))"
  using pip_detect_subset [of w_pip3 "[''foo'', ''nope'']" freeze_foo]
  by (simp add: w_pip3_def)


subsection \<open>The policy check\<close>

lemma config_sat_empty: "config_sat P empty_config"
  by (simp add: config_sat_def empty_config_def opt_sat_def)

lemma config_sat_merge:
  "config_sat P cfg \<Longrightarrow> config_sat P c \<Longrightarrow> config_sat P (merge_config cfg c)"
  by (auto simp: config_sat_def merge_config_def merge_section_def opt_sat_def map_add_def
        split: option.splits)

lemma config_sat_read_file:
  "config_sat P cfg \<Longrightarrow> file_sat P (files w p) \<Longrightarrow> config_sat P (read_file w cfg p)"
  by (auto simp: read_file_def file_sat_def config_sat_merge split: file_state.splits)

lemma config_read_sat:
  "file_sat P (files w p) \<Longrightarrow> config_read w cfg p = ([ConfigRead p], Inr (read_file w cfg p))"
  by (auto simp: config_read_def read_file_def file_sat_def split: file_state.splits)

lemma config_sat_foldl:
  "config_sat P cfg \<Longrightarrow> \<forall>p\<in>set ps. file_sat P (files w p) \<Longrightarrow>
     config_sat P (foldl (read_file w) cfg ps)"
  by (induction ps arbitrary: cfg) (simp_all add: config_sat_read_file)

text \<open>A boolean word has no percent sign, so interpolation leaves it as it is.\<close>

lemma boolean_word_no_percent:
  assumes "is_boolean_word v"
  shows "CHR ''%'' \<notin> set v"
proof
  assume "CHR ''%'' \<in> set v"
  then have "ascii_lower CHR ''%'' \<in> set (str_lower v)"
    by (simp add: str_lower_def)
  then have a: "CHR ''%'' \<in> set (str_lower v)"
    by (simp add: ascii_lower_def)
  have "str_lower v \<in> set (map fst BOOLEAN_STATES)"
    using assms by (simp add: is_boolean_word_def map_of_eq_None_iff)
  then show False
    using a by (auto simp: BOOLEAN_STATES_def)
qed

lemma before_get_boolean_word: "is_boolean_word v \<Longrightarrow> before_get w d v = Inr v"
  by (simp add: before_get_def boolean_word_no_percent)

lemma boolean_word_converts:
  "is_boolean_word v \<Longrightarrow> \<exists>b. convert_to_boolean v = Inr b"
  by (auto simp: is_boolean_word_def convert_to_boolean_def)

lemma break_system_packages_valid:
  "config_sat is_boolean_word cfg \<Longrightarrow> \<exists>b. break_system_packages w cfg = Inr b"
  by (auto simp: config_sat_def break_system_packages_def getboolean_def unify_values_def
        opt_sat_def map_add_def before_get_boolean_word
        dest: boolean_word_converts split: option.splits)




text \<open>What has been done before a step stays in the trace.\<close>

lemma trace_io_bind: "set (fst m) \<subseteq> set (fst (io_bind m f))"
proof (cases m)
  case (Pair l r)
  then show ?thesis by (cases r) simp_all
qed


lemma config_read_in_trace: "ConfigRead p \<in> set (fst (io_bind (config_read w cfg p) f))"
proof -
  have "ConfigRead p \<in> set (fst (config_read w cfg p))"
    by (simp add: config_read_def)
  then show ?thesis
    using trace_io_bind by blast
qed

text \<open>
  The loop, when every file it reads is missing or well-formed with boolean values: it
  reads the files in order and stops at the first read that leaves the key true.
\<close>

lemma xdg_loop_scan:
  assumes "config_sat is_boolean_word cfg"
      and "\<forall>p. ConfigRead p \<in> set (fst (xdg_loop w cfg ds)) \<longrightarrow>
                file_sat is_boolean_word (files w p)"
  shows "(\<exists>qs. qs \<noteq> [] \<and> prefix qs (map pip_config_file ds)
            \<and> xdg_loop w cfg ds = (map ConfigRead qs, Inr None)
            \<and> key_true w (foldl (read_file w) cfg qs)
            \<and> (\<forall>qs'. qs' \<noteq> [] \<and> strict_prefix qs' qs \<longrightarrow>
                   \<not> key_true w (foldl (read_file w) cfg qs')))
       \<or> (xdg_loop w cfg ds =
             (map ConfigRead (map pip_config_file ds),
              Inr (Some (foldl (read_file w) cfg (map pip_config_file ds))))
            \<and> (\<forall>qs'. qs' \<noteq> [] \<and> prefix qs' (map pip_config_file ds) \<longrightarrow>
                   \<not> key_true w (foldl (read_file w) cfg qs')))"
  using assms
proof (induction ds arbitrary: cfg)
  case Nil
  then show ?case by (simp add: io_return_def)
next
  case (Cons d ds)
  let ?p = "pip_config_file d"
  let ?cfg1 = "read_file w cfg ?p"
  have "ConfigRead ?p \<in> set (fst (xdg_loop w cfg (d # ds)))"
    by (simp add: config_read_in_trace)
  then have fs: "file_sat is_boolean_word (files w ?p)"
    using Cons.prems(2) by blast
  have rd: "config_read w cfg ?p = ([ConfigRead ?p], Inr ?cfg1)"
    using fs by (rule config_read_sat)
  have ok1: "config_sat is_boolean_word ?cfg1"
    using Cons.prems(1) fs by (rule config_sat_read_file)
  then obtain b where b: "break_system_packages w ?cfg1 = Inr b"
    using break_system_packages_valid by blast
  show ?case
  proof (cases b)
    case True
    have "xdg_loop w cfg (d # ds) = (map ConfigRead [?p], Inr None)"
      using rd b True by (simp add: io_lift_def io_return_def)
    moreover have "key_true w (foldl (read_file w) cfg [?p])"
      using b True by (simp add: key_true_def)
    moreover have "\<forall>qs'. qs' \<noteq> [] \<and> strict_prefix qs' [?p] \<longrightarrow>
                   \<not> key_true w (foldl (read_file w) cfg qs')"
    proof (intro allI impI)
      fix qs' assume "qs' \<noteq> [] \<and> strict_prefix qs' [?p]"
      then have False by (cases qs') auto
      then show "\<not> key_true w (foldl (read_file w) cfg qs')" ..
    qed
    moreover have "prefix [?p] (map pip_config_file (d # ds))" by simp
    ultimately show ?thesis by blast
  next
    case False
    have step: "xdg_loop w cfg (d # ds) =
            (ConfigRead ?p # fst (xdg_loop w ?cfg1 ds), snd (xdg_loop w ?cfg1 ds))"
      using rd b False by (simp add: io_lift_def)
    have nk: "\<not> key_true w ?cfg1"
      using b False by (simp add: key_true_def)
    have rest: "\<forall>p. ConfigRead p \<in> set (fst (xdg_loop w ?cfg1 ds)) \<longrightarrow>
                file_sat is_boolean_word (files w p)"
      using Cons.prems(2) step by simp
    from Cons.IH [OF ok1 rest]
    consider
      (stop) qs where "qs \<noteq> []" "prefix qs (map pip_config_file ds)"
        "xdg_loop w ?cfg1 ds = (map ConfigRead qs, Inr None)"
        "key_true w (foldl (read_file w) ?cfg1 qs)"
        "\<forall>qs'. qs' \<noteq> [] \<and> strict_prefix qs' qs \<longrightarrow>
                   \<not> key_true w (foldl (read_file w) ?cfg1 qs')"
    | (all) "xdg_loop w ?cfg1 ds =
             (map ConfigRead (map pip_config_file ds),
              Inr (Some (foldl (read_file w) ?cfg1 (map pip_config_file ds))))"
        "\<forall>qs'. qs' \<noteq> [] \<and> prefix qs' (map pip_config_file ds) \<longrightarrow>
                   \<not> key_true w (foldl (read_file w) ?cfg1 qs')"
      by auto
    then show ?thesis
    proof cases
      case stop
      have "xdg_loop w cfg (d # ds) = (map ConfigRead (?p # qs), Inr None)"
        using step stop(3) by simp
      moreover have "prefix (?p # qs) (map pip_config_file (d # ds))"
        using stop(2) by simp
      moreover have "key_true w (foldl (read_file w) cfg (?p # qs))"
        using stop(4) by simp
      moreover have "\<forall>qs'. qs' \<noteq> [] \<and> strict_prefix qs' (?p # qs) \<longrightarrow>
                   \<not> key_true w (foldl (read_file w) cfg qs')"
      proof (intro allI impI)
        fix qs' assume a: "qs' \<noteq> [] \<and> strict_prefix qs' (?p # qs)"
        then obtain zs where zs: "qs' = ?p # zs" "strict_prefix zs qs"
          by (cases qs') auto
        show "\<not> key_true w (foldl (read_file w) cfg qs')"
        proof (cases "zs = []")
          case True
          then show ?thesis using zs nk by simp
        next
          case False
          then show ?thesis using zs stop(5) by simp
        qed
      qed
      ultimately show ?thesis by blast
    next
      case all
      have "xdg_loop w cfg (d # ds) =
             (map ConfigRead (map pip_config_file (d # ds)),
              Inr (Some (foldl (read_file w) cfg (map pip_config_file (d # ds)))))"
        using step all(1) by simp
      moreover have "\<forall>qs'. qs' \<noteq> [] \<and> prefix qs' (map pip_config_file (d # ds)) \<longrightarrow>
                   \<not> key_true w (foldl (read_file w) cfg qs')"
      proof (intro allI impI)
        fix qs' assume a: "qs' \<noteq> [] \<and> prefix qs' (map pip_config_file (d # ds))"
        then obtain zs where zs: "qs' = ?p # zs" "prefix zs (map pip_config_file ds)"
          by (cases qs') auto
        show "\<not> key_true w (foldl (read_file w) cfg qs')"
        proof (cases "zs = []")
          case True
          then show ?thesis using zs nk by simp
        next
          case False
          then show ?thesis using zs all(2) by simp
        qed
      qed
      ultimately show ?thesis by blast
    qed
  qed
qed

lemma xdg_dirs_loop:
  "(case environ w ''XDG_CONFIG_DIRS'' of
      None \<Rightarrow> io_return (Some empty_config)
    | Some v \<Rightarrow> xdg_loop w empty_config (split_py v '':''))
   = xdg_loop w empty_config
       (case environ w ''XDG_CONFIG_DIRS'' of None \<Rightarrow> [] | Some v \<Rightarrow> split_py v '':'')"
  by (simp split: option.splits)

lemma config_paths_dirs:
  "config_paths w =
     map pip_config_file
       (case environ w ''XDG_CONFIG_DIRS'' of None \<Rightarrow> [] | Some v \<Rightarrow> split_py v '':'')
     @ [fallback_config]"
  by (simp add: config_paths_def split: option.splits)

text \<open>The check as the loop over the directories followed by the read of the fallback.\<close>

lemma installable_unfold:
  assumes "\<not> version_lt_3_11 (version_info w)" and "\<not> override_truthy w"
  shows "externally_managed_installable w =
      io_bind (xdg_loop w empty_config
                 (case environ w ''XDG_CONFIG_DIRS'' of None \<Rightarrow> [] | Some v \<Rightarrow> split_py v '':''))
        (\<lambda>r. case r of
               None \<Rightarrow> io_return True
             | Some cfg \<Rightarrow>
                 io_bind (config_read w cfg fallback_config) (\<lambda>cfg'.
                 io_bind (io_lift (break_system_packages w cfg')) (\<lambda>b. io_return b)))"
  using assms by (simp add: externally_managed_installable_def xdg_dirs_loop)

lemma installable_scan:
  assumes ver: "\<not> version_lt_3_11 (version_info w)"
      and ovr: "\<not> override_truthy w"
      and ok: "\<forall>p. ConfigRead p \<in> set (fst (externally_managed_installable w)) \<longrightarrow>
                 file_sat is_boolean_word (files w p)"
  shows "\<exists>qs. qs \<noteq> [] \<and> prefix qs (config_paths w)
           \<and> externally_managed_installable w
               = (map ConfigRead qs, Inr (key_true w (after_reads w qs)))
           \<and> (\<forall>qs'. qs' \<noteq> [] \<and> strict_prefix qs' qs \<longrightarrow> \<not> key_true w (after_reads w qs'))
           \<and> (\<not> key_true w (after_reads w qs) \<longrightarrow> qs = config_paths w)"
proof -
  define ds where
    "ds = (case environ w ''XDG_CONFIG_DIRS'' of None \<Rightarrow> [] | Some v \<Rightarrow> split_py v '':'')"
  define ps where "ps = map pip_config_file ds"
  define after where
    "after = (\<lambda>r. case r of
               None \<Rightarrow> io_return True
             | Some cfg \<Rightarrow>
                 io_bind (config_read w cfg fallback_config) (\<lambda>cfg'.
                 io_bind (io_lift (break_system_packages w cfg')) (\<lambda>b. io_return b)))"
  have cp: "config_paths w = ps @ [fallback_config]"
    by (simp add: config_paths_dirs ds_def ps_def)
  have eml: "externally_managed_installable w = io_bind (xdg_loop w empty_config ds) after"
    using installable_unfold [OF ver ovr] by (simp add: ds_def after_def)
  have okloop: "\<forall>p. ConfigRead p \<in> set (fst (xdg_loop w empty_config ds)) \<longrightarrow>
                  file_sat is_boolean_word (files w p)"
    using ok trace_io_bind [of "xdg_loop w empty_config ds" after] by (auto simp: eml)
  from xdg_loop_scan [OF config_sat_empty okloop]
  consider
    (stop) qs where "qs \<noteq> []" "prefix qs ps"
      "xdg_loop w empty_config ds = (map ConfigRead qs, Inr None)"
      "key_true w (after_reads w qs)"
      "\<forall>qs'. qs' \<noteq> [] \<and> strict_prefix qs' qs \<longrightarrow> \<not> key_true w (after_reads w qs')"
  | (all) "xdg_loop w empty_config ds = (map ConfigRead ps, Inr (Some (after_reads w ps)))"
      "\<forall>qs'. qs' \<noteq> [] \<and> prefix qs' ps \<longrightarrow> \<not> key_true w (after_reads w qs')"
    unfolding after_reads_def ps_def by blast
  then show ?thesis
  proof cases
    case stop
    have "externally_managed_installable w
            = (map ConfigRead qs, Inr (key_true w (after_reads w qs)))"
      using eml stop(3,4) by (simp add: after_def io_return_def)
    moreover have "prefix qs (config_paths w)"
      using stop(2) by (simp add: cp)
    ultimately show ?thesis using stop(1,4,5) by blast
  next
    case all
    let ?cfgN = "after_reads w ps"
    let ?cfgF = "after_reads w (ps @ [fallback_config])"
    have tr: "fst (externally_managed_installable w)
                = map ConfigRead ps @ fst (after (Some ?cfgN))"
      using eml all(1) by simp
    have okps: "\<forall>p\<in>set ps. file_sat is_boolean_word (files w p)"
      using ok tr by auto
    have "ConfigRead fallback_config \<in> set (fst (after (Some ?cfgN)))"
      by (simp add: after_def config_read_in_trace)
    then have okfb: "file_sat is_boolean_word (files w fallback_config)"
      using ok tr by auto
    have cfgF: "?cfgF = read_file w ?cfgN fallback_config"
      by (simp add: after_reads_def)
    have okN: "config_sat is_boolean_word ?cfgN"
      unfolding after_reads_def
      using okps by (intro config_sat_foldl config_sat_empty)
    have rd: "config_read w ?cfgN fallback_config = ([ConfigRead fallback_config], Inr ?cfgF)"
      unfolding cfgF using okfb by (rule config_read_sat)
    have "config_sat is_boolean_word ?cfgF"
      unfolding cfgF using okN okfb by (rule config_sat_read_file)
    then obtain b where b: "break_system_packages w ?cfgF = Inr b"
      using break_system_packages_valid by blast
    have kt: "key_true w ?cfgF = b"
      using b by (simp add: key_true_def)
    have res: "externally_managed_installable w
            = (map ConfigRead (ps @ [fallback_config]), Inr (key_true w ?cfgF))"
      using eml all(1) rd b kt by (simp add: after_def io_lift_def io_return_def)
    have "\<forall>qs'. qs' \<noteq> [] \<and> strict_prefix qs' (ps @ [fallback_config]) \<longrightarrow>
              \<not> key_true w (after_reads w qs')"
      using all(2) by (auto simp: strict_prefix_def)
    then show ?thesis
      using res cp by (intro exI [of _ "ps @ [fallback_config]"]) simp
  qed
qed










lemmas path_defs =
  config_paths_def pip_config_file_def fallback_config_def Path_of_def posix_root_def
  posix_parts_def split_py_def

lemmas sat_defs =
  file_sat_def config_sat_def opt_sat_def is_boolean_word_def never_def BOOLEAN_STATES_def
  str_lower_def ascii_lower_def install_section_def

lemmas getboolean_defs =
  break_system_packages_def getboolean_def unify_values_def convert_to_boolean_def
  before_get_def BOOLEAN_STATES_def str_lower_def ascii_lower_def merge_config_def
  merge_section_def empty_config_def install_section_def map_add_def

lemmas installable_defs =
  externally_managed_installable_def version_lt_3_11_def override_truthy_def config_read_def
  io_lift_def io_return_def

lemma config_paths_w_xdg:
  "config_paths w_xdg =
     [Path ''/'' [''a'', ''pip'', ''pip.conf''], Path ''/'' [''b'', ''pip'', ''pip.conf''],
      Path ''/'' [''etc'', ''pip.conf'']]"
  by (simp add: path_defs w_xdg_def w_pip3_def)

lemma installable_w_xdg:
  "externally_managed_installable w_xdg =
     ([ConfigRead (Path ''/'' [''a'', ''pip'', ''pip.conf'']),
       ConfigRead (Path ''/'' [''b'', ''pip'', ''pip.conf''])], Inr True)"
  by (simp add: installable_defs w_xdg_def w_pip3_def path_defs getboolean_defs)

lemma installable_w_xdg_stop:
  "externally_managed_installable w_xdg_stop =
     ([ConfigRead (Path ''/'' [''a'', ''pip'', ''pip.conf''])], Inr True)"
  by (simp add: installable_defs w_xdg_stop_def w_pip3_def path_defs getboolean_defs)



text \<open>
  C1, as the claim states it, fails: with \<open>XDG_CONFIG_DIRS=/a:/b\<close>, the file of \<open>/a\<close>
  defining the key as \<open>false\<close> and the file of \<open>/b\<close> defining it as \<open>true\<close>, the first
  file that defines the key says \<open>false\<close>, and the check reads on and returns \<open>True\<close>.
\<close>

theorem first_file_does_not_decide_counterexample:
  "\<not> version_lt_3_11 (version_info w_xdg)
   \<and> environ w_xdg ''PIP_BREAK_SYSTEM_PACKAGES'' = None
   \<and> externally_managed_installable w_xdg =
       ([ConfigRead (Path ''/'' [''a'', ''pip'', ''pip.conf'']),
         ConfigRead (Path ''/'' [''b'', ''pip'', ''pip.conf''])], Inr True)
   \<and> file_key (files w_xdg (Path ''/'' [''a'', ''pip'', ''pip.conf''])) = Some ''false''
   \<and> spec_first_file_wins w_xdg = False"
proof -
  have "spec_first_file_wins w_xdg = False"
    by (simp add: spec_first_file_wins_def config_paths_w_xdg)
       (simp add: w_xdg_def w_pip3_def file_key_def getboolean_defs)
  moreover have "file_key (files w_xdg (Path ''/'' [''a'', ''pip'', ''pip.conf''])) = Some ''false''"
    by (simp add: w_xdg_def w_pip3_def file_key_def getboolean_defs)
  moreover have "\<not> version_lt_3_11 (version_info w_xdg)"
    by (simp add: w_xdg_def w_pip3_def version_lt_3_11_def)
  moreover have "environ w_xdg ''PIP_BREAK_SYSTEM_PACKAGES'' = None"
    by (simp add: w_xdg_def w_pip3_def)
  ultimately show ?thesis using installable_w_xdg by simp
qed

text \<open>
  C1, amended. At version 3.11 or later, the override not truthy, and every file that the
  check reads missing or well-formed with boolean values for the key: the check reads
  the files of the directories in list order, then \<open>/etc/pip.conf\<close>, each merged into the
  one parser, and stops with \<open>True\<close> after the first read that leaves the key true in the
  merged parser. A file that leaves the key false or absent decides nothing: the reading
  goes on, and the result is \<open>False\<close> only when all files have been read and the key is
  not true at the end. Files that the check does not reach are under no condition.
\<close>

theorem first_true_after_merge_decides:
  assumes "\<not> version_lt_3_11 (version_info w)"
      and "\<not> override_truthy w"
      and "\<forall>p. ConfigRead p \<in> set (fst (externally_managed_installable w)) \<longrightarrow>
              file_sat is_boolean_word (files w p)"
  shows "\<exists>qs. qs \<noteq> [] \<and> prefix qs (config_paths w)
           \<and> externally_managed_installable w
               = (map ConfigRead qs, Inr (key_true w (after_reads w qs)))
           \<and> (\<forall>qs'. qs' \<noteq> [] \<and> strict_prefix qs' qs \<longrightarrow> \<not> key_true w (after_reads w qs'))
           \<and> (\<not> key_true w (after_reads w qs) \<longrightarrow> qs = config_paths w)"
  using assms by (rule installable_scan)

lemma w_xdg_hyps:
  "\<not> version_lt_3_11 (version_info w_xdg)"
  "\<not> override_truthy w_xdg"
  "\<forall>p. ConfigRead p \<in> set (fst (externally_managed_installable w_xdg)) \<longrightarrow>
       file_sat is_boolean_word (files w_xdg p)"
  by (simp_all add: installable_w_xdg)
     (simp_all add: w_xdg_def w_pip3_def version_lt_3_11_def override_truthy_def sat_defs)

lemma w_xdg_stop_hyps:
  "\<not> version_lt_3_11 (version_info w_xdg_stop)"
  "\<not> override_truthy w_xdg_stop"
  "\<forall>p. ConfigRead p \<in> set (fst (externally_managed_installable w_xdg_stop)) \<longrightarrow>
       file_sat is_boolean_word (files w_xdg_stop p)"
  by (simp_all add: installable_w_xdg_stop)
     (simp_all add: w_xdg_stop_def w_pip3_def version_lt_3_11_def override_truthy_def sat_defs)

theorem first_true_after_merge_decides_witness:
  "(\<exists>qs. qs \<noteq> [] \<and> prefix qs (config_paths w_xdg)
           \<and> externally_managed_installable w_xdg
               = (map ConfigRead qs, Inr (key_true w_xdg (after_reads w_xdg qs)))
           \<and> (\<forall>qs'. qs' \<noteq> [] \<and> strict_prefix qs' qs \<longrightarrow>
                  \<not> key_true w_xdg (after_reads w_xdg qs'))
           \<and> (\<not> key_true w_xdg (after_reads w_xdg qs) \<longrightarrow> qs = config_paths w_xdg))
   \<and> (\<exists>qs. qs \<noteq> [] \<and> prefix qs (config_paths w_xdg_stop)
           \<and> externally_managed_installable w_xdg_stop
               = (map ConfigRead qs, Inr (key_true w_xdg_stop (after_reads w_xdg_stop qs)))
           \<and> (\<forall>qs'. qs' \<noteq> [] \<and> strict_prefix qs' qs \<longrightarrow>
                  \<not> key_true w_xdg_stop (after_reads w_xdg_stop qs'))
           \<and> (\<not> key_true w_xdg_stop (after_reads w_xdg_stop qs) \<longrightarrow>
                  qs = config_paths w_xdg_stop))"
  using first_true_after_merge_decides [OF w_xdg_hyps]
        first_true_after_merge_decides [OF w_xdg_stop_hyps]
  by simp










text \<open>
  C10. At construction, when the installer runs as root with a non-empty sudo command,
  the text \<open>'' --preserve-env=PIP_BREAK_SYSTEM_PACKAGES''\<close> is appended to the sudo command
  exactly once; when it does not run as root, or the sudo command is empty, the sudo
  command is left as it was. Nothing else of the object changes.
\<close>

theorem PipInstaller_init_sudo_command:
  "(as_root b \<and> sudo_command b \<noteq> '''' \<longrightarrow>
      sudo_command (PipInstaller_init b) =
        sudo_command b @ '' --preserve-env=PIP_BREAK_SYSTEM_PACKAGES'')
   \<and> (\<not> (as_root b \<and> sudo_command b \<noteq> '''') \<longrightarrow>
      sudo_command (PipInstaller_init b) = sudo_command b)
   \<and> as_root (PipInstaller_init b) = as_root b
   \<and> supports_depends (PipInstaller_init b) = supports_depends b"
  by (simp add: PipInstaller_init_def)

theorem PipInstaller_init_sudo_command_witness:
  "sudo_command (PipInstaller_init
      \<lparr>as_root = True, sudo_command = ''sudo -H'', supports_depends = True\<rparr>)
     = ''sudo -H --preserve-env=PIP_BREAK_SYSTEM_PACKAGES''
   \<and> sudo_command (PipInstaller_init
      \<lparr>as_root = True, sudo_command = '''', supports_depends = True\<rparr>) = ''''"
  using PipInstaller_init_sudo_command
          [of "\<lparr>as_root = True, sudo_command = ''sudo -H'', supports_depends = True\<rparr>"]
        PipInstaller_init_sudo_command
          [of "\<lparr>as_root = True, sudo_command = '''', supports_depends = True\<rparr>"]
  by simp

end
